theory Spec2Isabelle
  imports Main "HOL-Library.Word"
begin

section \<open>Errors\<close>

text \<open>
  Go error values are compared by identity. The error variables the service declares
  (\<^verbatim>\<open>ErrInvalidCredentials\<close>, \<^verbatim>\<open>ErrInvalidAppID\<close>, \<^verbatim>\<open>ErrUserExists\<close>, each made by its own
  \<^verbatim>\<open>errors.New\<close>) and the three it reads from the storage package are one constructor each;
  \<open>Other\<close> stands for every other error value a collaborator or a library can hand back
  (a driver failure, a bcrypt or a signing error), named by its text.
\<close>

text \<open>
  Modelled from the spec: the declarations of \<^verbatim>\<open>storage.ErrUserNotFound\<close>,
  \<^verbatim>\<open>storage.ErrUserExists\<close> and \<^verbatim>\<open>storage.ErrAppNotFound\<close> are not among the sources;
  auth.go names them and the spec asks each collaborator for a distinguishable condition.
  Package auth imports package storage, so no storage variable can hold a value made by the
  \<^verbatim>\<open>errors.New\<close> calls of package auth: the six variables are six different values.
\<close>

datatype errvar =
    ErrInvalidCredentials
  | ErrInvalidAppID
  | ErrUserExists
  | storage_ErrUserNotFound
  | storage_ErrUserExists
  | storage_ErrAppNotFound
  | Other string

text \<open>
  \<open>Errorf op e\<close> is the value of \<^verbatim>\<open>fmt.Errorf("%s: %w", op, e)\<close>: an error whose text
  starts with \<open>op\<close> and which unwraps to \<open>e\<close>.
\<close>

datatype error = ErrorsNew errvar | Errorf string error

text \<open>
  \<^verbatim>\<open>errors.Is(err, target)\<close> for a target that is one of the variables above: it walks the
  chain of wrapped errors and compares each link with the target.
\<close>

fun errors_Is :: "error \<Rightarrow> errvar \<Rightarrow> bool" where
  "errors_Is (ErrorsNew v) target = (v = target)"
| "errors_Is (Errorf opn e) target = errors_Is e target"

section \<open>Domain models\<close>

type_synonym bytes = string
type_synonym int32 = "32 word"
type_synonym int64 = "64 word"

text \<open>
  Modelled from the spec: the models package (\<^verbatim>\<open>models.User\<close>, \<^verbatim>\<open>models.App\<close>) is not among
  the sources. The fields are the ones auth.go and jwt.go read; the spec gives a user an
  integer id, a login name and a password hash, and an application an integer id and a
  secret. The ids take the widths of the service's own signatures (\<^verbatim>\<open>userID int64\<close>,
  \<^verbatim>\<open>appID int32\<close>).
\<close>

record User =
  user_Id :: int64
  user_Name :: string
  user_PassHash :: bytes

record App =
  app_Id :: int32
  app_Secret :: string

section \<open>Libraries: time, bcrypt, jwt\<close>

text \<open>
  A \<^verbatim>\<open>time.Time\<close> is taken as its number of nanoseconds since the Unix epoch and a
  \<^verbatim>\<open>time.Duration\<close> is the int64 count of nanoseconds it is in Go. \<^verbatim>\<open>Time.Add\<close> adds the
  two and \<^verbatim>\<open>Time.Unix\<close> gives the whole seconds, rounded down as Go does for instants before
  the epoch too.
\<close>

type_synonym Time = int
type_synonym Duration = int64

definition time_Add :: "Time \<Rightarrow> Duration \<Rightarrow> Time" where
  "time_Add t d = t + sint d"

definition time_Unix :: "Time \<Rightarrow> int" where
  "time_Unix t = t div 1000000000"

text \<open>The methods of the jwt library; \<open>is_symmetric\<close> holds of the HMAC family.\<close>

datatype SigningMethod =
    SigningMethodHS256 | SigningMethodHS384 | SigningMethodHS512
  | SigningMethodRS256 | SigningMethodES256 | SigningMethodNone

fun is_symmetric :: "SigningMethod \<Rightarrow> bool" where
  "is_symmetric SigningMethodHS256 = True"
| "is_symmetric SigningMethodHS384 = True"
| "is_symmetric SigningMethodHS512 = True"
| "is_symmetric m = False"

text \<open>A value stored in \<^verbatim>\<open>jwt.MapClaims\<close>: here an integer or a string.\<close>

datatype claim_value = IntVal int | StringVal string

type_synonym MapClaims = "string \<rightharpoonup> claim_value"

record Token =
  Method :: SigningMethod
  Claims :: MapClaims

text \<open>\<^verbatim>\<open>jwt.New(method)\<close>: a token of that method with an empty claim map.\<close>

definition jwt_New :: "SigningMethod \<Rightarrow> Token" where
  "jwt_New m = \<lparr>Method = m, Claims = Map.empty\<rparr>"

text \<open>
  What the surroundings answer during one call: the clock, and the three library routines
  that are not part of the repository. \<^verbatim>\<open>bcrypt.GenerateFromPassword\<close> draws a fresh salt,
  so two runs may differ in this field; each operation calls each routine at most once.
  A Go pair \<^verbatim>\<open>(value, error)\<close> is a pair whose second component is \<open>None\<close> for \<^verbatim>\<open>nil\<close>.
\<close>

record World =
  time_Now :: Time
  bcrypt_CompareHashAndPassword :: "bytes \<Rightarrow> bytes \<Rightarrow> error option"
  bcrypt_GenerateFromPassword :: "bytes \<Rightarrow> int \<Rightarrow> bytes \<times> error option"
  jwt_SignedString :: "Token \<Rightarrow> bytes \<Rightarrow> string \<times> error option"

definition bcrypt_DefaultCost :: int where
  "bcrypt_DefaultCost = 10"

text \<open>
  A call either returns or dereferences a nil pointer: a provider may answer
  \<^verbatim>\<open>(nil, nil)\<close>, and the code reads the fields of the pointer without a check.
\<close>

datatype 'a outcome = Panic | Return 'a

section \<open>Token issuance (internal/lib/jwt.go)\<close>

text \<open>Lines 10 to 17 of \<^verbatim>\<open>NewToken\<close>: the token and its four claims, before signing.\<close>

definition NewToken_unsigned :: "Time \<Rightarrow> User \<Rightarrow> App \<Rightarrow> Duration \<Rightarrow> Token" where
  "NewToken_unsigned now user app duration =
     (let token = jwt_New SigningMethodHS256;
          claims = Claims token;
          claims = claims(''userId'' \<mapsto> IntVal (sint (user_Id user)));
          claims = claims(''email'' \<mapsto> StringVal (user_Name user));
          claims = claims(''exp'' \<mapsto> IntVal (time_Unix (time_Add now duration)));
          claims = claims(''app_id'' \<mapsto> IntVal (sint (app_Id app)))
      in token\<lparr>Claims := claims\<rparr>)"

definition NewToken ::
  "World \<Rightarrow> User option \<Rightarrow> App option \<Rightarrow> Duration \<Rightarrow> (string \<times> error option) outcome" where
  "NewToken w user app duration =
     (case user of
        None \<Rightarrow> Panic
      | Some u \<Rightarrow>
          (case app of
             None \<Rightarrow> Panic
           | Some a \<Rightarrow>
               (case jwt_SignedString w (NewToken_unsigned (time_Now w) u a duration) (app_Secret a) of
                  (tokenString, Some err) \<Rightarrow> Return ('''', Some err)
                | (tokenString, None) \<Rightarrow> Return (tokenString, None))))"

section \<open>The service (internal/services/auth/auth.go)\<close>

text \<open>
  The \<^verbatim>\<open>Auth\<close> struct without its logger: logging changes no result. The two providers
  only read, and every operation asks each of them at most once, so a provider is the
  answer it gives at that moment. The saver writes: its store \<open>'st\<close> is passed in and
  handed back.
\<close>

record 'st Auth =
  userSaver :: "'st \<Rightarrow> string \<Rightarrow> bytes \<Rightarrow> (int64 \<times> error option) \<times> 'st"
  userProvider_User :: "string \<Rightarrow> User option \<times> error option"
  userProvider_IsAdmin :: "int64 \<Rightarrow> bool \<times> error option"
  appProvider :: "int32 \<Rightarrow> App option \<times> error option"
  tokenTTL :: Duration

definition Login ::
  "World \<Rightarrow> 'st Auth \<Rightarrow> string \<Rightarrow> bytes \<Rightarrow> int32 \<Rightarrow> (string \<times> error option) outcome" where
  "Login w auth email password appID =
     (let opn = ''auth.Login'' in
      case userProvider_User auth email of
        (user, Some err) \<Rightarrow>
          if errors_Is err storage_ErrUserNotFound
          then Return ('''', Some (Errorf opn (ErrorsNew ErrInvalidAppID)))
          else Return ('''', Some (Errorf opn err))
      | (user, None) \<Rightarrow>
          (case user of
             None \<Rightarrow> Panic
           | Some u \<Rightarrow>
               (case bcrypt_CompareHashAndPassword w (user_PassHash u) password of
                  Some err \<Rightarrow>
                    Return ('''', Some (Errorf opn (ErrorsNew ErrInvalidCredentials)))
                | None \<Rightarrow>
                    (case appProvider auth appID of
                       (app, Some err) \<Rightarrow>
                         Return ('''', Some (Errorf opn (ErrorsNew storage_ErrAppNotFound)))
                     | (app, None) \<Rightarrow>
                         (case NewToken w user app (tokenTTL auth) of
                            Panic \<Rightarrow> Panic
                          | Return (token, Some err) \<Rightarrow>
                              Return ('''', Some (Errorf opn err))
                          | Return (token, None) \<Rightarrow> Return (token, None))))))"

definition RegisterNewUser ::
  "World \<Rightarrow> 'st Auth \<Rightarrow> 'st \<Rightarrow> string \<Rightarrow> string \<Rightarrow> (int64 \<times> error option) \<times> 'st" where
  "RegisterNewUser w auth st email password =
     (let opn = ''auth.RegisterNewUser'' in
      case bcrypt_GenerateFromPassword w password bcrypt_DefaultCost of
        (passHash, Some err) \<Rightarrow> ((0, Some (Errorf opn err)), st)
      | (passHash, None) \<Rightarrow>
          (case userSaver auth st email passHash of
             ((userId, Some err), st') \<Rightarrow>
               if errors_Is err storage_ErrUserExists
               then ((0, Some (ErrorsNew ErrUserExists)), st')
               else ((0, Some (Errorf opn err)), st')
           | ((userId, None), st') \<Rightarrow> ((userId, None), st')))"

definition isAdmin :: "'st Auth \<Rightarrow> int64 \<Rightarrow> bool \<times> error option" where
  "isAdmin auth userID =
     (let opn = ''auth.IsAdmin'' in
      case userProvider_IsAdmin auth userID of
        (isAdmin, Some err) \<Rightarrow>
          if errors_Is err storage_ErrUserNotFound
          then (False, Some (Errorf opn (ErrorsNew ErrInvalidAppID)))
          else (False, Some (Errorf opn err))
      | (isAdmin, None) \<Rightarrow> (isAdmin, None))"

section \<open>A sample deployment\<close>

text \<open>
  Concrete collaborators for the worked instances below, over an in-memory table with a row
  per user (login name, id, password hash). The lookups report not-found with the storage
  package's variables; user 1 is the administrator and application 1 the one registered
  application.
\<close>

type_synonym mem_store = "(string \<times> int64 \<times> bytes) list"

text \<open>
  Modelled from the spec: the user store behind \<^verbatim>\<open>UserSaver\<close> (package storage) is not
  among the sources. The spec gives a user a unique login name, an id and a password hash,
  created by registration and never mutated or deleted; \<^verbatim>\<open>SaveUser\<close> answers the newly
  assigned id, or signals already-exists for a name that is stored, and then the stored
  hash is not overwritten. So: a name that has a row is refused with the storage package's
  \<^verbatim>\<open>ErrUserExists\<close> and the table stays as it was; any other name gets a row of its own
  with the next id.
\<close>

definition mem_SaveUser :: "mem_store \<Rightarrow> string \<Rightarrow> bytes \<Rightarrow> (int64 \<times> error option) \<times> mem_store" where
  "mem_SaveUser st name passHash =
     (if name \<in> set (map fst st)
      then ((0, Some (Errorf ''storage.SaveUser'' (ErrorsNew storage_ErrUserExists))), st)
      else ((of_nat (length st) + 1, None), st @ [(name, of_nat (length st) + 1, passHash)]))"

definition mem_User :: "mem_store \<Rightarrow> string \<Rightarrow> User option \<times> error option" where
  "mem_User st email =
     (case map_of st email of
        None \<Rightarrow> (None, Some (Errorf ''storage.User'' (ErrorsNew storage_ErrUserNotFound)))
      | Some (uid, passHash) \<Rightarrow>
          (Some \<lparr>user_Id = uid, user_Name = email, user_PassHash = passHash\<rparr>, None))"

definition mem_IsAdmin :: "mem_store \<Rightarrow> int64 \<Rightarrow> bool \<times> error option" where
  "mem_IsAdmin st userID =
     (if userID \<in> set (map (\<lambda>r. fst (snd r)) st)
      then (userID = 1, None)
      else (False, Some (Errorf ''storage.IsAdmin'' (ErrorsNew storage_ErrUserNotFound))))"

definition mem_App :: "int32 \<Rightarrow> App option \<times> error option" where
  "mem_App appID =
     (if appID = 1
      then (Some \<lparr>app_Id = 1, app_Secret = ''test-secret''\<rparr>, None)
      else (None, Some (Errorf ''storage.App'' (ErrorsNew storage_ErrAppNotFound))))"

definition demo_Auth :: "mem_store \<Rightarrow> mem_store Auth" where
  "demo_Auth st =
     \<lparr>userSaver = mem_SaveUser,
      userProvider_User = mem_User st,
      userProvider_IsAdmin = mem_IsAdmin st,
      appProvider = mem_App,
      tokenTTL = 3600000000000\<rparr>"

text \<open>
  A sample world. Its hash routine is a stand-in (a marker byte before the password) with
  the three answers of bcrypt's comparison: nil, a mismatch, a hash too short to be one.
  Its signer refuses an empty key and otherwise answers the key, a dot and the email claim.
\<close>

definition demo_compare :: "bytes \<Rightarrow> bytes \<Rightarrow> error option" where
  "demo_compare hashedPassword password =
     (case hashedPassword of
        [] \<Rightarrow> Some (ErrorsNew (Other ''hashedSecret too short to be a bcrypted password''))
      | c # rest \<Rightarrow>
          if c = CHR ''$'' \<and> rest = password then None
          else Some (ErrorsNew (Other ''hashedPassword is not the hash of the given password'')))"

definition demo_generate :: "bytes \<Rightarrow> int \<Rightarrow> bytes \<times> error option" where
  "demo_generate password cost =
     (if password = [] then ([], Some (ErrorsNew (Other ''no entropy'')))
      else (CHR ''$'' # password, None))"

definition demo_sign :: "Token \<Rightarrow> bytes \<Rightarrow> string \<times> error option" where
  "demo_sign token key =
     (if key = [] then ([], Some (ErrorsNew (Other ''key is invalid'')))
      else (key @ ''.'' @ (case Claims token ''email'' of Some (StringVal n) \<Rightarrow> n | _ \<Rightarrow> ''?''), None))"

definition demo_World :: World where
  "demo_World =
     \<lparr>time_Now = 1700000000123456789,
      bcrypt_CompareHashAndPassword = demo_compare,
      bcrypt_GenerateFromPassword = demo_generate,
      jwt_SignedString = demo_sign\<rparr>"

definition demo_store :: mem_store where
  "demo_store = [(''ann@example.org'', 1, ''$hunter2''), (''bob@example.org'', 2, [])]"

lemmas demo_defs =
  demo_Auth_def demo_World_def demo_store_def demo_compare_def demo_generate_def demo_sign_def
  mem_SaveUser_def mem_User_def mem_IsAdmin_def mem_App_def

section \<open>The paths of Login\<close>

lemma Login_user_not_found:
  assumes "userProvider_User auth email = (u, Some e)" and "errors_Is e storage_ErrUserNotFound"
  shows "Login w auth email password appID =
           Return ('''', Some (Errorf ''auth.Login'' (ErrorsNew ErrInvalidAppID)))"
  using assms by (simp add: Login_def)

lemma Login_user_error:
  assumes "userProvider_User auth email = (u, Some e)" and "\<not> errors_Is e storage_ErrUserNotFound"
  shows "Login w auth email password appID = Return ('''', Some (Errorf ''auth.Login'' e))"
  using assms by (simp add: Login_def)

lemma Login_nil_user:
  assumes "userProvider_User auth email = (None, None)"
  shows "Login w auth email password appID = Panic"
  using assms by (simp add: Login_def)

lemma Login_bad_password:
  assumes "userProvider_User auth email = (Some u, None)"
    and "bcrypt_CompareHashAndPassword w (user_PassHash u) password = Some e"
  shows "Login w auth email password appID =
           Return ('''', Some (Errorf ''auth.Login'' (ErrorsNew ErrInvalidCredentials)))"
  using assms by (simp add: Login_def)

lemma Login_app_error:
  assumes "userProvider_User auth email = (Some u, None)"
    and "bcrypt_CompareHashAndPassword w (user_PassHash u) password = None"
    and "appProvider auth appID = (a, Some e)"
  shows "Login w auth email password appID =
           Return ('''', Some (Errorf ''auth.Login'' (ErrorsNew storage_ErrAppNotFound)))"
  using assms by (simp add: Login_def)

lemma Login_nil_app:
  assumes "userProvider_User auth email = (Some u, None)"
    and "bcrypt_CompareHashAndPassword w (user_PassHash u) password = None"
    and "appProvider auth appID = (None, None)"
  shows "Login w auth email password appID = Panic"
  using assms by (simp add: Login_def NewToken_def)

lemma Login_sign_error:
  assumes "userProvider_User auth email = (Some u, None)"
    and "bcrypt_CompareHashAndPassword w (user_PassHash u) password = None"
    and "appProvider auth appID = (Some a, None)"
    and "jwt_SignedString w (NewToken_unsigned (time_Now w) u a (tokenTTL auth)) (app_Secret a)
           = (s, Some e)"
  shows "Login w auth email password appID = Return ('''', Some (Errorf ''auth.Login'' e))"
  using assms by (simp add: Login_def NewToken_def)

lemma Login_signed:
  assumes "userProvider_User auth email = (Some u, None)"
    and "bcrypt_CompareHashAndPassword w (user_PassHash u) password = None"
    and "appProvider auth appID = (Some a, None)"
    and "jwt_SignedString w (NewToken_unsigned (time_Now w) u a (tokenTTL auth)) (app_Secret a)
           = (s, None)"
  shows "Login w auth email password appID = Return (s, None)"
  using assms by (simp add: Login_def NewToken_def)

lemma NewToken_unsigned_Method:
  "Method (NewToken_unsigned now u a d) = SigningMethodHS256"
  by (simp add: NewToken_unsigned_def jwt_New_def)

lemma NewToken_unsigned_Claims:
  "Claims (NewToken_unsigned now u a d) =
     [''userId'' \<mapsto> IntVal (sint (user_Id u)),
      ''email'' \<mapsto> StringVal (user_Name u),
      ''exp'' \<mapsto> IntVal ((now + sint d) div 1000000000),
      ''app_id'' \<mapsto> IntVal (sint (app_Id a))]"
  by (simp add: NewToken_unsigned_def jwt_New_def time_Add_def time_Unix_def)

lemma NewToken_unsigned_dom:
  "dom (Claims (NewToken_unsigned now u a d)) = {''userId'', ''email'', ''exp'', ''app_id''}"
  by (auto simp add: NewToken_unsigned_Claims)

lemma Login_error_empty_token:
  "Login w auth email password appID = Return (token, Some e) \<Longrightarrow> token = ''''"
  by (auto simp: Login_def NewToken_def Let_def
      split: prod.splits option.splits outcome.splits if_splits)

lemma Login_error_wrapped:
  "Login w auth email password appID = Return (token, Some r) \<Longrightarrow>
     \<exists>x. r = Errorf ''auth.Login'' x"
  by (auto simp: Login_def NewToken_def Let_def
      split: prod.splits option.splits outcome.splits if_splits)

section \<open>The paths of RegisterNewUser and isAdmin\<close>

lemma RegisterNewUser_hash_error:
  assumes "bcrypt_GenerateFromPassword w password bcrypt_DefaultCost = (h, Some e)"
  shows "RegisterNewUser w auth st email password =
           ((0, Some (Errorf ''auth.RegisterNewUser'' e)), st)"
  using assms by (simp add: RegisterNewUser_def)

lemma RegisterNewUser_exists:
  assumes "bcrypt_GenerateFromPassword w password bcrypt_DefaultCost = (h, None)"
    and "userSaver auth st email h = ((uid, Some e), st')"
    and "errors_Is e storage_ErrUserExists"
  shows "RegisterNewUser w auth st email password = ((0, Some (ErrorsNew ErrUserExists)), st')"
  using assms by (simp add: RegisterNewUser_def)

lemma RegisterNewUser_save_error:
  assumes "bcrypt_GenerateFromPassword w password bcrypt_DefaultCost = (h, None)"
    and "userSaver auth st email h = ((uid, Some e), st')"
    and "\<not> errors_Is e storage_ErrUserExists"
  shows "RegisterNewUser w auth st email password =
           ((0, Some (Errorf ''auth.RegisterNewUser'' e)), st')"
  using assms by (simp add: RegisterNewUser_def)

lemma RegisterNewUser_saved:
  assumes "bcrypt_GenerateFromPassword w password bcrypt_DefaultCost = (h, None)"
    and "userSaver auth st email h = ((uid, None), st')"
  shows "RegisterNewUser w auth st email password = ((uid, None), st')"
  using assms by (simp add: RegisterNewUser_def)

lemma RegisterNewUser_error_zero:
  "RegisterNewUser w auth st email password = ((userId, Some e), st') \<Longrightarrow> userId = 0"
  by (auto simp: RegisterNewUser_def Let_def split: prod.splits option.splits if_splits)

lemma RegisterNewUser_error_shape:
  "RegisterNewUser w auth st email password = ((userId, Some r), st') \<Longrightarrow>
     r = ErrorsNew ErrUserExists \<or> (\<exists>x. r = Errorf ''auth.RegisterNewUser'' x)"
  by (auto simp: RegisterNewUser_def Let_def split: prod.splits option.splits if_splits)

lemma mem_SaveUser_present:
  assumes "map_of st name = Some row"
  shows "mem_SaveUser st name passHash =
           ((0, Some (Errorf ''storage.SaveUser'' (ErrorsNew storage_ErrUserExists))), st)"
proof -
  have "name \<in> fst ` set st"
    using assms by (metis map_of_eq_None_iff option.distinct(1))
  then show ?thesis by (simp add: mem_SaveUser_def)
qed

lemma mem_SaveUser_absent:
  assumes "map_of st name = None"
  shows "mem_SaveUser st name passHash =
           ((of_nat (length st) + 1, None), st @ [(name, of_nat (length st) + 1, passHash)])"
proof -
  have "name \<notin> fst ` set st"
    using assms by (simp add: map_of_eq_None_iff)
  then show ?thesis by (simp add: mem_SaveUser_def)
qed

lemma map_of_snoc_absent:
  assumes "map_of st name = None"
  shows "map_of (st @ [(name, row)]) name = Some row"
  using assms by (simp add: map_add_def)

lemma isAdmin_found:
  assumes "userProvider_IsAdmin auth userID = (b, None)"
  shows "isAdmin auth userID = (b, None)"
  using assms by (simp add: isAdmin_def)

lemma isAdmin_not_found:
  assumes "userProvider_IsAdmin auth userID = (b, Some e)"
    and "errors_Is e storage_ErrUserNotFound"
  shows "isAdmin auth userID = (False, Some (Errorf ''auth.IsAdmin'' (ErrorsNew ErrInvalidAppID)))"
  using assms by (simp add: isAdmin_def)

lemma isAdmin_error:
  assumes "userProvider_IsAdmin auth userID = (b, Some e)"
    and "\<not> errors_Is e storage_ErrUserNotFound"
  shows "isAdmin auth userID = (False, Some (Errorf ''auth.IsAdmin'' e))"
  using assms by (simp add: isAdmin_def)

lemma isAdmin_error_false:
  "isAdmin auth userID = (b, Some e) \<Longrightarrow> b = False"
  by (auto simp: isAdmin_def Let_def split: prod.splits option.splits if_splits)

lemma isAdmin_error_wrapped:
  "isAdmin auth userID = (b, Some r) \<Longrightarrow> \<exists>x. r = Errorf ''auth.IsAdmin'' x"
  by (auto simp: isAdmin_def Let_def split: prod.splits option.splits if_splits)

section \<open>Login: the token\<close>

text \<open>
  C1. When the user lookup answers a user, the password matches the stored hash and the
  application lookup answers an application, Login returns what the signer makes of a
  token that it signs with that application's secret. The token is an HS256 token, a
  symmetric method, and its claim map has four entries and no other: \<open>userId\<close> is the
  user's id, \<open>email\<close> the user's name, \<open>app_id\<close> the application's id and \<open>exp\<close>
  the Unix second of the instant of issuance plus the configured \<open>tokenTTL\<close>. The signer
  is the library's: the statement is about the calls in which it returns a string.
\<close>

theorem Login_issues_signed_token:
  assumes user: "userProvider_User auth email = (Some u, None)"
    and pass: "bcrypt_CompareHashAndPassword w (user_PassHash u) password = None"
    and app: "appProvider auth appID = (Some a, None)"
    and sign: "jwt_SignedString w (NewToken_unsigned (time_Now w) u a (tokenTTL auth))
                 (app_Secret a) = (s, None)"
  shows "Login w auth email password appID = Return (s, None)
       \<and> (let token = NewToken_unsigned (time_Now w) u a (tokenTTL auth) in
            jwt_SignedString w token (app_Secret a) = (s, None)
          \<and> Method token = SigningMethodHS256
          \<and> is_symmetric (Method token)
          \<and> dom (Claims token) = {''userId'', ''email'', ''exp'', ''app_id''}
          \<and> card (dom (Claims token)) = 4
          \<and> Claims token ''userId'' = Some (IntVal (sint (user_Id u)))
          \<and> Claims token ''email'' = Some (StringVal (user_Name u))
          \<and> Claims token ''app_id'' = Some (IntVal (sint (app_Id a)))
          \<and> Claims token ''exp'' =
              Some (IntVal ((time_Now w + sint (tokenTTL auth)) div 1000000000)))"
proof -
  let ?token = "NewToken_unsigned (time_Now w) u a (tokenTTL auth)"
  have ret: "Login w auth email password appID = Return (s, None)"
    using user pass app sign by (rule Login_signed)
  have d: "dom (Claims ?token) = {''userId'', ''email'', ''exp'', ''app_id''}"
    by (rule NewToken_unsigned_dom)
  have c: "card (dom (Claims ?token)) = 4"
    by (simp add: d)
  have m: "Method ?token = SigningMethodHS256"
    by (rule NewToken_unsigned_Method)
  have v: "Claims ?token ''userId'' = Some (IntVal (sint (user_Id u)))"
    "Claims ?token ''email'' = Some (StringVal (user_Name u))"
    "Claims ?token ''app_id'' = Some (IntVal (sint (app_Id a)))"
    "Claims ?token ''exp'' = Some (IntVal ((time_Now w + sint (tokenTTL auth)) div 1000000000))"
    by (simp_all add: NewToken_unsigned_Claims)
  show ?thesis
    unfolding Let_def using ret sign d c m v by simp
qed

theorem Login_issues_signed_token_witness:
  "userProvider_User (demo_Auth demo_store) ''ann@example.org''
     = (Some \<lparr>user_Id = 1, user_Name = ''ann@example.org'', user_PassHash = ''$hunter2''\<rparr>, None)
   \<and> bcrypt_CompareHashAndPassword demo_World ''$hunter2'' ''hunter2'' = None
   \<and> appProvider (demo_Auth demo_store) 1 = (Some \<lparr>app_Id = 1, app_Secret = ''test-secret''\<rparr>, None)
   \<and> Login demo_World (demo_Auth demo_store) ''ann@example.org'' ''hunter2'' 1
       = Return (''test-secret.ann@example.org'', None)
   \<and> Claims (NewToken_unsigned (time_Now demo_World)
        \<lparr>user_Id = 1, user_Name = ''ann@example.org'', user_PassHash = ''$hunter2''\<rparr>
        \<lparr>app_Id = 1, app_Secret = ''test-secret''\<rparr> (tokenTTL (demo_Auth demo_store))) ''exp''
       = Some (IntVal 1700003600)"
proof -
  let ?u = "\<lparr>user_Id = 1, user_Name = ''ann@example.org'', user_PassHash = ''$hunter2''\<rparr>"
  let ?a = "\<lparr>app_Id = 1, app_Secret = ''test-secret''\<rparr>"
  have h1: "userProvider_User (demo_Auth demo_store) ''ann@example.org'' = (Some ?u, None)"
    by (simp add: demo_defs)
  have h2: "bcrypt_CompareHashAndPassword demo_World (user_PassHash ?u) ''hunter2'' = None"
    by (simp add: demo_defs)
  have h3: "appProvider (demo_Auth demo_store) 1 = (Some ?a, None)"
    by (simp add: demo_defs)
  have h4: "jwt_SignedString demo_World
              (NewToken_unsigned (time_Now demo_World) ?u ?a (tokenTTL (demo_Auth demo_store)))
              (app_Secret ?a) = (''test-secret.ann@example.org'', None)"
    by (simp add: demo_defs NewToken_unsigned_Claims)
  have n: "(time_Now demo_World + sint (tokenTTL (demo_Auth demo_store))) div 1000000000
             = 1700003600"
    by (simp add: demo_defs)
  show ?thesis
    using Login_issues_signed_token [OF h1 h2 h3 h4] h1 h2 h3 n
    by (simp add: Let_def)
qed

section \<open>Login: the failures\<close>

text \<open>
  C2. When the user lookup answers a user and the comparison of the password with the
  stored hash returns an error, whichever error that is, Login fails with the operation
  name around \<open>ErrInvalidCredentials\<close>. That is the only variable a classification check
  finds in the result, and two such calls (a mismatch in one, a malformed hash in the other)
  return the same value.
\<close>

theorem Login_bad_password_invalid_credentials:
  assumes "userProvider_User auth email = (Some u, None)"
    and "bcrypt_CompareHashAndPassword w (user_PassHash u) password = Some e"
    and "userProvider_User auth' email' = (Some u', None)"
    and "bcrypt_CompareHashAndPassword w' (user_PassHash u') password' = Some e'"
  shows "Login w auth email password appID =
           Return ('''', Some (Errorf ''auth.Login'' (ErrorsNew ErrInvalidCredentials)))
       \<and> errors_Is (Errorf ''auth.Login'' (ErrorsNew ErrInvalidCredentials)) ErrInvalidCredentials
       \<and> (\<forall>v. errors_Is (Errorf ''auth.Login'' (ErrorsNew ErrInvalidCredentials)) v
              \<longrightarrow> v = ErrInvalidCredentials)
       \<and> Login w' auth' email' password' appID' = Login w auth email password appID"
proof -
  have a: "Login w auth email password appID =
             Return ('''', Some (Errorf ''auth.Login'' (ErrorsNew ErrInvalidCredentials)))"
    using assms(1,2) by (rule Login_bad_password)
  have b: "Login w' auth' email' password' appID' =
             Return ('''', Some (Errorf ''auth.Login'' (ErrorsNew ErrInvalidCredentials)))"
    using assms(3,4) by (rule Login_bad_password)
  show ?thesis using a b by simp
qed

theorem Login_bad_password_invalid_credentials_witness:
  "bcrypt_CompareHashAndPassword demo_World ''$hunter2'' ''letmein''
     = Some (ErrorsNew (Other ''hashedPassword is not the hash of the given password''))
   \<and> bcrypt_CompareHashAndPassword demo_World [] ''letmein''
     = Some (ErrorsNew (Other ''hashedSecret too short to be a bcrypted password''))
   \<and> Login demo_World (demo_Auth demo_store) ''ann@example.org'' ''letmein'' 1
     = Return ('''', Some (Errorf ''auth.Login'' (ErrorsNew ErrInvalidCredentials)))
   \<and> Login demo_World (demo_Auth demo_store) ''bob@example.org'' ''letmein'' 1
     = Login demo_World (demo_Auth demo_store) ''ann@example.org'' ''letmein'' 1"
proof -
  let ?ann = "\<lparr>user_Id = 1, user_Name = ''ann@example.org'', user_PassHash = ''$hunter2''\<rparr>"
  let ?bob = "\<lparr>user_Id = 2, user_Name = ''bob@example.org'', user_PassHash = []\<rparr>"
  have h1: "userProvider_User (demo_Auth demo_store) ''ann@example.org'' = (Some ?ann, None)"
    by (simp add: demo_defs)
  have h2: "bcrypt_CompareHashAndPassword demo_World (user_PassHash ?ann) ''letmein''
              = Some (ErrorsNew (Other ''hashedPassword is not the hash of the given password''))"
    by (simp add: demo_defs)
  have h3: "userProvider_User (demo_Auth demo_store) ''bob@example.org'' = (Some ?bob, None)"
    by (simp add: demo_defs)
  have h4: "bcrypt_CompareHashAndPassword demo_World (user_PassHash ?bob) ''letmein''
              = Some (ErrorsNew (Other ''hashedSecret too short to be a bcrypted password''))"
    by (simp add: demo_defs)
  show ?thesis
    using Login_bad_password_invalid_credentials [OF h1 h2 h3 h4, where appID = 1 and appID' = 1] h2 h4 by simp
qed

text \<open>
  C3, as stated, fails: in the sample deployment a login for an unknown user and a login
  for an unknown application return errors that a classification check tells apart.
\<close>

theorem Login_not_found_kinds_counterexample:
  "userProvider_User (demo_Auth demo_store) ''eve@example.org''
     = (None, Some (Errorf ''storage.User'' (ErrorsNew storage_ErrUserNotFound)))
   \<and> Login demo_World (demo_Auth demo_store) ''eve@example.org'' ''hunter2'' 1
     = Return ('''', Some (Errorf ''auth.Login'' (ErrorsNew ErrInvalidAppID)))
   \<and> appProvider (demo_Auth demo_store) 7
     = (None, Some (Errorf ''storage.App'' (ErrorsNew storage_ErrAppNotFound)))
   \<and> Login demo_World (demo_Auth demo_store) ''ann@example.org'' ''hunter2'' 7
     = Return ('''', Some (Errorf ''auth.Login'' (ErrorsNew storage_ErrAppNotFound)))
   \<and> errors_Is (Errorf ''auth.Login'' (ErrorsNew storage_ErrAppNotFound)) storage_ErrAppNotFound
   \<and> \<not> errors_Is (Errorf ''auth.Login'' (ErrorsNew ErrInvalidAppID)) storage_ErrAppNotFound
   \<and> errors_Is (Errorf ''auth.Login'' (ErrorsNew ErrInvalidAppID)) ErrInvalidAppID
   \<and> \<not> errors_Is (Errorf ''auth.Login'' (ErrorsNew storage_ErrAppNotFound)) ErrInvalidAppID"
  by (simp add: Login_def demo_defs)

text \<open>
  C3, amended. When the user lookup reports not-found, Login fails with the operation name
  around the service's own \<open>ErrInvalidAppID\<close>; a login that fails at the application
  lookup fails with the operation name around the storage package's
  \<open>ErrAppNotFound\<close>. A classification check finds exactly \<open>ErrInvalidAppID\<close> in the
  first and exactly \<open>storage_ErrAppNotFound\<close> in the second.
\<close>

theorem Login_user_not_found_invalid_app_id:
  assumes "userProvider_User auth email = (u, Some e)"
    and "errors_Is e storage_ErrUserNotFound"
    and "userProvider_User auth' email' = (Some u', None)"
    and "bcrypt_CompareHashAndPassword w' (user_PassHash u') password' = None"
    and "appProvider auth' appID' = (a', Some e')"
  shows "Login w auth email password appID =
           Return ('''', Some (Errorf ''auth.Login'' (ErrorsNew ErrInvalidAppID)))
       \<and> Login w' auth' email' password' appID' =
           Return ('''', Some (Errorf ''auth.Login'' (ErrorsNew storage_ErrAppNotFound)))
       \<and> (\<forall>v. errors_Is (Errorf ''auth.Login'' (ErrorsNew ErrInvalidAppID)) v
              = (v = ErrInvalidAppID))
       \<and> (\<forall>v. errors_Is (Errorf ''auth.Login'' (ErrorsNew storage_ErrAppNotFound)) v
              = (v = storage_ErrAppNotFound))"
proof -
  have a: "Login w auth email password appID =
             Return ('''', Some (Errorf ''auth.Login'' (ErrorsNew ErrInvalidAppID)))"
    using assms(1,2) by (rule Login_user_not_found)
  have b: "Login w' auth' email' password' appID' =
             Return ('''', Some (Errorf ''auth.Login'' (ErrorsNew storage_ErrAppNotFound)))"
    using assms(3,4,5) by (rule Login_app_error)
  show ?thesis using a b by auto
qed

theorem Login_user_not_found_invalid_app_id_witness:
  "errors_Is (Errorf ''storage.User'' (ErrorsNew storage_ErrUserNotFound)) storage_ErrUserNotFound
   \<and> Login demo_World (demo_Auth demo_store) ''eve@example.org'' ''hunter2'' 1
     = Return ('''', Some (Errorf ''auth.Login'' (ErrorsNew ErrInvalidAppID)))
   \<and> Login demo_World (demo_Auth demo_store) ''ann@example.org'' ''hunter2'' 7
     = Return ('''', Some (Errorf ''auth.Login'' (ErrorsNew storage_ErrAppNotFound)))"
proof -
  let ?ann = "\<lparr>user_Id = 1, user_Name = ''ann@example.org'', user_PassHash = ''$hunter2''\<rparr>"
  have h1: "userProvider_User (demo_Auth demo_store) ''eve@example.org''
              = (None, Some (Errorf ''storage.User'' (ErrorsNew storage_ErrUserNotFound)))"
    by (simp add: demo_defs)
  have h2: "errors_Is (Errorf ''storage.User'' (ErrorsNew storage_ErrUserNotFound))
              storage_ErrUserNotFound"
    by simp
  have h3: "userProvider_User (demo_Auth demo_store) ''ann@example.org'' = (Some ?ann, None)"
    by (simp add: demo_defs)
  have h4: "bcrypt_CompareHashAndPassword demo_World (user_PassHash ?ann) ''hunter2'' = None"
    by (simp add: demo_defs)
  have h5: "appProvider (demo_Auth demo_store) 7
              = (None, Some (Errorf ''storage.App'' (ErrorsNew storage_ErrAppNotFound)))"
    by (simp add: demo_defs)
  show ?thesis
    using Login_user_not_found_invalid_app_id [OF h1 h2 h3 h4 h5, where w = demo_World and password = "''hunter2''" and appID = 1] h2
    by simp
qed

text \<open>
  C4. When the login reaches the application lookup and the lookup returns an error, Login
  fails with the operation name around the storage package's \<open>ErrAppNotFound\<close>,
  whatever the error was: a provider failing with any other error, for any application
  id, gives the same result.
\<close>

theorem Login_app_lookup_failure:
  assumes "userProvider_User auth email = (Some u, None)"
    and "bcrypt_CompareHashAndPassword w (user_PassHash u) password = None"
    and "appProvider auth appID = (a, Some e)"
  shows "Login w auth email password appID =
           Return ('''', Some (Errorf ''auth.Login'' (ErrorsNew storage_ErrAppNotFound)))
       \<and> errors_Is (Errorf ''auth.Login'' (ErrorsNew storage_ErrAppNotFound)) storage_ErrAppNotFound
       \<and> Login w (auth\<lparr>appProvider := (\<lambda>i. (a', Some e'))\<rparr>) email password appID' =
           Login w auth email password appID"
proof -
  have a: "Login w auth email password appID =
             Return ('''', Some (Errorf ''auth.Login'' (ErrorsNew storage_ErrAppNotFound)))"
    using assms by (rule Login_app_error)
  have "userProvider_User (auth\<lparr>appProvider := (\<lambda>i. (a', Some e'))\<rparr>) email = (Some u, None)"
    using assms(1) by simp
  moreover have "appProvider (auth\<lparr>appProvider := (\<lambda>i. (a', Some e'))\<rparr>) appID' = (a', Some e')"
    by simp
  ultimately have b: "Login w (auth\<lparr>appProvider := (\<lambda>i. (a', Some e'))\<rparr>) email password appID' =
             Return ('''', Some (Errorf ''auth.Login'' (ErrorsNew storage_ErrAppNotFound)))"
    using assms(2) by (intro Login_app_error)
  show ?thesis using a b by simp
qed

theorem Login_app_lookup_failure_witness:
  "appProvider (demo_Auth demo_store) 7
     = (None, Some (Errorf ''storage.App'' (ErrorsNew storage_ErrAppNotFound)))
   \<and> Login demo_World (demo_Auth demo_store) ''ann@example.org'' ''hunter2'' 7
     = Return ('''', Some (Errorf ''auth.Login'' (ErrorsNew storage_ErrAppNotFound)))
   \<and> Login demo_World
       ((demo_Auth demo_store)\<lparr>appProvider := (\<lambda>i. (None, Some (ErrorsNew (Other ''database is locked''))))\<rparr>)
       ''ann@example.org'' ''hunter2'' 1
     = Return ('''', Some (Errorf ''auth.Login'' (ErrorsNew storage_ErrAppNotFound)))"
proof -
  let ?ann = "\<lparr>user_Id = 1, user_Name = ''ann@example.org'', user_PassHash = ''$hunter2''\<rparr>"
  have h1: "userProvider_User (demo_Auth demo_store) ''ann@example.org'' = (Some ?ann, None)"
    by (simp add: demo_defs)
  have h2: "bcrypt_CompareHashAndPassword demo_World (user_PassHash ?ann) ''hunter2'' = None"
    by (simp add: demo_defs)
  have h3: "appProvider (demo_Auth demo_store) 7
              = (None, Some (Errorf ''storage.App'' (ErrorsNew storage_ErrAppNotFound)))"
    by (simp add: demo_defs)
  show ?thesis
    using Login_app_lookup_failure [OF h1 h2 h3, where a' = None and e' = "ErrorsNew (Other ''database is locked'')" and appID' = 1] h3
    by simp
qed

section \<open>RegisterNewUser and isAdmin\<close>

text \<open>
  C5. Once the hash is made, RegisterNewUser calls the saver once and hands back the store
  the saver left. If the saver reports the storage package's \<open>ErrUserExists\<close>, the call
  fails with the service's bare \<open>ErrUserExists\<close>, not with a wrapped internal error; any
  other error of the saver comes back with the operation name around it; on success the id
  the saver assigned is returned as it is. Over the user store of the spec, a registration
  under a name that is stored fails with \<open>ErrUserExists\<close> and leaves the table, and
  with it the stored hash, as it was; and after a first registration under a new name, a
  second one under the same name, whatever its password, fails so and the hash of the
  first is still the one stored.
\<close>

theorem RegisterNewUser_saver_outcomes:
  assumes gen: "bcrypt_GenerateFromPassword w password bcrypt_DefaultCost = (h, None)"
    and save: "userSaver auth st email h = ((uid, r), st')"
  shows "(r = Some e \<and> errors_Is e storage_ErrUserExists \<longrightarrow>
            RegisterNewUser w auth st email password = ((0, Some (ErrorsNew ErrUserExists)), st')
          \<and> errors_Is (ErrorsNew ErrUserExists) ErrUserExists)
       \<and> (r = Some e \<and> \<not> errors_Is e storage_ErrUserExists \<longrightarrow>
            RegisterNewUser w auth st email password =
              ((0, Some (Errorf ''auth.RegisterNewUser'' e)), st'))
       \<and> (r = None \<longrightarrow> RegisterNewUser w auth st email password = ((uid, None), st'))
       \<and> snd (RegisterNewUser w auth st email password) = st'
       \<and> (userSaver store_auth = mem_SaveUser \<and> map_of table email = Some (uid0, h0) \<longrightarrow>
            RegisterNewUser w store_auth table email password =
              ((0, Some (ErrorsNew ErrUserExists)), table)
          \<and> map_of (snd (RegisterNewUser w store_auth table email password)) email
              = Some (uid0, h0))
       \<and> (userSaver store_auth = mem_SaveUser \<and> map_of table email = None
          \<and> bcrypt_GenerateFromPassword w2 password2 bcrypt_DefaultCost = (h2, None) \<longrightarrow>
            (case RegisterNewUser w store_auth table email password of
               ((uid1, r1), table1) \<Rightarrow>
                 r1 = None
               \<and> map_of table1 email = Some (uid1, h)
               \<and> RegisterNewUser w2 store_auth table1 email password2 =
                   ((0, Some (ErrorsNew ErrUserExists)), table1)
               \<and> map_of (snd (RegisterNewUser w2 store_auth table1 email password2)) email
                   = Some (uid1, h)))"
proof (intro conjI impI)
  assume "r = Some e \<and> errors_Is e storage_ErrUserExists"
  then show "RegisterNewUser w auth st email password =
               ((0, Some (ErrorsNew ErrUserExists)), st')"
    using gen save by (simp add: RegisterNewUser_exists)
next
  show "errors_Is (ErrorsNew ErrUserExists) ErrUserExists" by simp
next
  assume "r = Some e \<and> \<not> errors_Is e storage_ErrUserExists"
  then show "RegisterNewUser w auth st email password =
               ((0, Some (Errorf ''auth.RegisterNewUser'' e)), st')"
    using gen save by (simp add: RegisterNewUser_save_error)
next
  assume "r = None"
  then show "RegisterNewUser w auth st email password = ((uid, None), st')"
    using gen save by (simp add: RegisterNewUser_saved)
next
  show "snd (RegisterNewUser w auth st email password) = st'"
    using gen save by (cases r) (simp_all add: RegisterNewUser_def)
next
  assume a: "userSaver store_auth = mem_SaveUser \<and> map_of table email = Some (uid0, h0)"
  then have s: "userSaver store_auth table email h =
      ((0, Some (Errorf ''storage.SaveUser'' (ErrorsNew storage_ErrUserExists))), table)"
    by (simp add: mem_SaveUser_present)
  have x: "errors_Is (Errorf ''storage.SaveUser'' (ErrorsNew storage_ErrUserExists))
             storage_ErrUserExists"
    by simp
  show t: "RegisterNewUser w store_auth table email password =
             ((0, Some (ErrorsNew ErrUserExists)), table)"
    using gen s x by (rule RegisterNewUser_exists)
  show "map_of (snd (RegisterNewUser w store_auth table email password)) email = Some (uid0, h0)"
    using t a by simp
next
  assume a: "userSaver store_auth = mem_SaveUser \<and> map_of table email = None
          \<and> bcrypt_GenerateFromPassword w2 password2 bcrypt_DefaultCost = (h2, None)"
  let ?uid1 = "of_nat (length table) + 1 :: int64"
  let ?table1 = "table @ [(email, ?uid1, h)]"
  have s1: "userSaver store_auth table email h = ((?uid1, None), ?table1)"
    using a by (simp add: mem_SaveUser_absent)
  have r1: "RegisterNewUser w store_auth table email password = ((?uid1, None), ?table1)"
    using gen s1 by (rule RegisterNewUser_saved)
  have m1: "map_of ?table1 email = Some (?uid1, h)"
    by (rule map_of_snoc_absent) (simp add: a)
  have s2: "userSaver store_auth ?table1 email h2 =
      ((0, Some (Errorf ''storage.SaveUser'' (ErrorsNew storage_ErrUserExists))), ?table1)"
    using a m1 by (simp add: mem_SaveUser_present)
  have x: "errors_Is (Errorf ''storage.SaveUser'' (ErrorsNew storage_ErrUserExists))
             storage_ErrUserExists"
    by simp
  have g2: "bcrypt_GenerateFromPassword w2 password2 bcrypt_DefaultCost = (h2, None)"
    using a by simp
  have r2: "RegisterNewUser w2 store_auth ?table1 email password2 =
              ((0, Some (ErrorsNew ErrUserExists)), ?table1)"
    using g2 s2 x by (rule RegisterNewUser_exists)
  show "case RegisterNewUser w store_auth table email password of
               ((uid1, r1), table1) \<Rightarrow>
                 r1 = None
               \<and> map_of table1 email = Some (uid1, h)
               \<and> RegisterNewUser w2 store_auth table1 email password2 =
                   ((0, Some (ErrorsNew ErrUserExists)), table1)
               \<and> map_of (snd (RegisterNewUser w2 store_auth table1 email password2)) email
                   = Some (uid1, h)"
    unfolding r1 using r2 m1 by simp
qed

theorem RegisterNewUser_saver_outcomes_witness:
  "bcrypt_GenerateFromPassword demo_World ''other'' bcrypt_DefaultCost = (''$other'', None)
   \<and> userSaver (demo_Auth demo_store) demo_store ''ann@example.org'' ''$other''
       = ((0, Some (Errorf ''storage.SaveUser'' (ErrorsNew storage_ErrUserExists))), demo_store)
   \<and> map_of demo_store ''ann@example.org'' = Some (1, ''$hunter2'')
   \<and> RegisterNewUser demo_World (demo_Auth demo_store) demo_store ''ann@example.org'' ''other''
       = ((0, Some (ErrorsNew ErrUserExists)), demo_store)
   \<and> map_of (snd (RegisterNewUser demo_World (demo_Auth demo_store) demo_store
                     ''ann@example.org'' ''other'')) ''ann@example.org''
       = Some (1, ''$hunter2'')
   \<and> map_of demo_store ''eve@example.org'' = None
   \<and> RegisterNewUser demo_World (demo_Auth demo_store) demo_store ''eve@example.org'' ''other''
       = ((3, None), demo_store @ [(''eve@example.org'', 3, ''$other'')])
   \<and> RegisterNewUser demo_World (demo_Auth demo_store)
         (demo_store @ [(''eve@example.org'', 3, ''$other'')]) ''eve@example.org'' ''third''
       = ((0, Some (ErrorsNew ErrUserExists)), demo_store @ [(''eve@example.org'', 3, ''$other'')])
   \<and> map_of (demo_store @ [(''eve@example.org'', 3, ''$other'')]) ''eve@example.org''
       = Some (3, ''$other'')"
proof -
  let ?e = "Errorf ''storage.SaveUser'' (ErrorsNew storage_ErrUserExists)"
  let ?A = "demo_Auth demo_store"
  let ?table1 = "demo_store @ [(''eve@example.org'', 3, ''$other'')]"
  have g: "bcrypt_GenerateFromPassword demo_World ''other'' bcrypt_DefaultCost = (''$other'', None)"
    by (simp add: demo_defs)
  have g2: "bcrypt_GenerateFromPassword demo_World ''third'' bcrypt_DefaultCost = (''$third'', None)"
    by (simp add: demo_defs)
  have s1: "userSaver ?A demo_store ''ann@example.org'' ''$other'' = ((0, Some ?e), demo_store)"
    by (simp add: demo_defs)
  have s2: "userSaver ?A demo_store ''eve@example.org'' ''$other'' = ((3, None), ?table1)"
    by (simp add: demo_defs)
  have u: "userSaver ?A = mem_SaveUser"
    by (simp add: demo_Auth_def)
  have m: "map_of demo_store ''ann@example.org'' = Some (1, ''$hunter2'')"
    by (simp add: demo_defs)
  have n: "map_of demo_store ''eve@example.org'' = None"
    by (simp add: demo_defs)
  have e: "errors_Is ?e storage_ErrUserExists"
    by simp
  note t1 = RegisterNewUser_saver_outcomes [OF g s1, where e = ?e and store_auth = ?A
      and table = demo_store and ?uid0.0 = 1 and ?h0.0 = "''$hunter2''"]
  note t2 = RegisterNewUser_saver_outcomes [OF g s2, where store_auth = ?A
      and table = demo_store and ?w2.0 = demo_World and ?password2.0 = "''third''"
      and ?h2.0 = "''$third''"]
  have r1: "RegisterNewUser demo_World ?A demo_store ''ann@example.org'' ''other''
              = ((0, Some (ErrorsNew ErrUserExists)), demo_store)"
    using t1 [THEN conjunct1] e by simp
  have k: "map_of (snd (RegisterNewUser demo_World ?A demo_store ''ann@example.org'' ''other''))
             ''ann@example.org'' = Some (1, ''$hunter2'')"
    using t1 [THEN conjunct2, THEN conjunct2, THEN conjunct2, THEN conjunct2, THEN conjunct1] u m
    by simp
  have r2: "RegisterNewUser demo_World ?A demo_store ''eve@example.org'' ''other''
              = ((3, None), ?table1)"
    using t2 [THEN conjunct2, THEN conjunct2, THEN conjunct1] by simp
  have q: "map_of ?table1 ''eve@example.org'' = Some (3, ''$other'')
      \<and> RegisterNewUser demo_World ?A ?table1 ''eve@example.org'' ''third''
          = ((0, Some (ErrorsNew ErrUserExists)), ?table1)"
    using t2 [THEN conjunct2, THEN conjunct2, THEN conjunct2, THEN conjunct2, THEN conjunct2]
      u n g2 r2
    by simp
  show ?thesis
    using g s1 m n r1 k r2 q by simp
qed

text \<open>
  C6. The admin check returns the provider's flag as it is when the provider succeeds;
  when the provider reports not-found it fails with the operation name around
  \<open>ErrInvalidAppID\<close>, the invalid-request kind; any other error of the provider comes
  back with the operation name around it.
\<close>

theorem isAdmin_outcomes:
  "(userProvider_IsAdmin auth userID = (b, None) \<longrightarrow> isAdmin auth userID = (b, None))
   \<and> (userProvider_IsAdmin auth userID = (b, Some e) \<and> errors_Is e storage_ErrUserNotFound \<longrightarrow>
        isAdmin auth userID = (False, Some (Errorf ''auth.IsAdmin'' (ErrorsNew ErrInvalidAppID)))
      \<and> errors_Is (Errorf ''auth.IsAdmin'' (ErrorsNew ErrInvalidAppID)) ErrInvalidAppID)
   \<and> (userProvider_IsAdmin auth userID = (b, Some e) \<and> \<not> errors_Is e storage_ErrUserNotFound \<longrightarrow>
        isAdmin auth userID = (False, Some (Errorf ''auth.IsAdmin'' e)))"
proof (intro conjI impI)
  assume "userProvider_IsAdmin auth userID = (b, None)"
  then show "isAdmin auth userID = (b, None)"
    by (rule isAdmin_found)
next
  assume "userProvider_IsAdmin auth userID = (b, Some e) \<and> errors_Is e storage_ErrUserNotFound"
  then show "isAdmin auth userID =
               (False, Some (Errorf ''auth.IsAdmin'' (ErrorsNew ErrInvalidAppID)))"
    by (simp add: isAdmin_not_found)
next
  show "errors_Is (Errorf ''auth.IsAdmin'' (ErrorsNew ErrInvalidAppID)) ErrInvalidAppID"
    by simp
next
  assume "userProvider_IsAdmin auth userID = (b, Some e) \<and> \<not> errors_Is e storage_ErrUserNotFound"
  then show "isAdmin auth userID = (False, Some (Errorf ''auth.IsAdmin'' e))"
    by (simp add: isAdmin_error)
qed

theorem isAdmin_outcomes_witness:
  "userProvider_IsAdmin (demo_Auth demo_store) 1 = (True, None)
   \<and> isAdmin (demo_Auth demo_store) 1 = (True, None)
   \<and> userProvider_IsAdmin (demo_Auth demo_store) 2 = (False, None)
   \<and> isAdmin (demo_Auth demo_store) 2 = (False, None)
   \<and> userProvider_IsAdmin (demo_Auth demo_store) 9
       = (False, Some (Errorf ''storage.IsAdmin'' (ErrorsNew storage_ErrUserNotFound)))
   \<and> isAdmin (demo_Auth demo_store) 9
       = (False, Some (Errorf ''auth.IsAdmin'' (ErrorsNew ErrInvalidAppID)))
   \<and> isAdmin ((demo_Auth demo_store)\<lparr>userProvider_IsAdmin :=
        (\<lambda>i. (True, Some (ErrorsNew (Other ''database is locked''))))\<rparr>) 1
       = (False, Some (Errorf ''auth.IsAdmin'' (ErrorsNew (Other ''database is locked''))))"
proof -
  let ?down = "(demo_Auth demo_store)\<lparr>userProvider_IsAdmin :=
        (\<lambda>i. (True, Some (ErrorsNew (Other ''database is locked''))))\<rparr>"
  let ?nf = "Errorf ''storage.IsAdmin'' (ErrorsNew storage_ErrUserNotFound)"
  let ?db = "ErrorsNew (Other ''database is locked'')"
  have p1: "userProvider_IsAdmin (demo_Auth demo_store) 1 = (True, None)"
    by (simp add: demo_defs)
  have p2: "userProvider_IsAdmin (demo_Auth demo_store) 2 = (False, None)"
    by (simp add: demo_defs)
  have p3: "userProvider_IsAdmin (demo_Auth demo_store) 9 = (False, Some ?nf)"
    by (simp add: demo_defs)
  have p4: "userProvider_IsAdmin ?down 1 = (True, Some ?db)"
    by simp
  have q3: "errors_Is ?nf storage_ErrUserNotFound" by simp
  have q4: "\<not> errors_Is ?db storage_ErrUserNotFound" by simp
  have r1: "isAdmin (demo_Auth demo_store) 1 = (True, None)"
    using isAdmin_outcomes [where auth = "demo_Auth demo_store" and userID = 1 and b = True,
        THEN conjunct1] p1 by simp
  have r2: "isAdmin (demo_Auth demo_store) 2 = (False, None)"
    using isAdmin_outcomes [where auth = "demo_Auth demo_store" and userID = 2 and b = False,
        THEN conjunct1] p2 by simp
  have r3: "isAdmin (demo_Auth demo_store) 9 =
              (False, Some (Errorf ''auth.IsAdmin'' (ErrorsNew ErrInvalidAppID)))"
    using isAdmin_outcomes [where auth = "demo_Auth demo_store" and userID = 9 and b = False
        and e = ?nf, THEN conjunct2, THEN conjunct1] p3 q3 by simp
  have r4: "isAdmin ?down 1 = (False, Some (Errorf ''auth.IsAdmin'' ?db))"
    using isAdmin_outcomes [where auth = ?down and userID = 1 and b = True
        and e = ?db, THEN conjunct2, THEN conjunct2] p4 q4 by simp
  show ?thesis
    using p1 p2 p3 r1 r2 r3 r4 by simp
qed

section \<open>Error shapes across the operations\<close>

text \<open>
  C7. An error that an operation does not classify comes back with the operation's name
  around it: a user lookup error other than not-found and a signing error in Login, a
  hashing error and a saver error other than already-exists in RegisterNewUser, a provider
  error other than not-found in the admin check. Wrapping keeps every classification check
  as it was on the wrapped error. No operation returns an error of a collaborator as it
  is: every error of Login and of the admin check carries the operation's name, and every
  error of RegisterNewUser carries it or is the service's own \<open>ErrUserExists\<close>.
\<close>

theorem internal_errors_are_wrapped:
  "(userProvider_User auth email = (u1, Some e1) \<and> \<not> errors_Is e1 storage_ErrUserNotFound \<longrightarrow>
      Login w auth email password appID = Return ('''', Some (Errorf ''auth.Login'' e1)))
   \<and> (userProvider_User auth email = (Some u2, None)
        \<and> bcrypt_CompareHashAndPassword w (user_PassHash u2) password = None
        \<and> appProvider auth appID = (Some a, None)
        \<and> jwt_SignedString w (NewToken_unsigned (time_Now w) u2 a (tokenTTL auth)) (app_Secret a)
            = (s, Some e2) \<longrightarrow>
      Login w auth email password appID = Return ('''', Some (Errorf ''auth.Login'' e2)))
   \<and> (bcrypt_GenerateFromPassword w password bcrypt_DefaultCost = (h3, Some e3) \<longrightarrow>
      RegisterNewUser w auth st email password =
        ((0, Some (Errorf ''auth.RegisterNewUser'' e3)), st))
   \<and> (bcrypt_GenerateFromPassword w password bcrypt_DefaultCost = (h4, None)
        \<and> userSaver auth st email h4 = ((uid, Some e4), st')
        \<and> \<not> errors_Is e4 storage_ErrUserExists \<longrightarrow>
      RegisterNewUser w auth st email password =
        ((0, Some (Errorf ''auth.RegisterNewUser'' e4)), st'))
   \<and> (userProvider_IsAdmin auth userID = (b, Some e5) \<and> \<not> errors_Is e5 storage_ErrUserNotFound \<longrightarrow>
      isAdmin auth userID = (False, Some (Errorf ''auth.IsAdmin'' e5)))
   \<and> errors_Is (Errorf opn e) v = errors_Is e v
   \<and> (Login w auth email password appID = Return (t, Some r1) \<longrightarrow>
        (\<exists>x. r1 = Errorf ''auth.Login'' x))
   \<and> (RegisterNewUser w auth st email password = ((i, Some r2), st2) \<longrightarrow>
        r2 = ErrorsNew ErrUserExists \<or> (\<exists>x. r2 = Errorf ''auth.RegisterNewUser'' x))
   \<and> (isAdmin auth userID = (b', Some r3) \<longrightarrow> (\<exists>x. r3 = Errorf ''auth.IsAdmin'' x))"
proof (intro conjI impI)
  assume "userProvider_User auth email = (u1, Some e1) \<and> \<not> errors_Is e1 storage_ErrUserNotFound"
  then show "Login w auth email password appID = Return ('''', Some (Errorf ''auth.Login'' e1))"
    by (simp add: Login_user_error)
next
  assume "userProvider_User auth email = (Some u2, None)
        \<and> bcrypt_CompareHashAndPassword w (user_PassHash u2) password = None
        \<and> appProvider auth appID = (Some a, None)
        \<and> jwt_SignedString w (NewToken_unsigned (time_Now w) u2 a (tokenTTL auth)) (app_Secret a)
            = (s, Some e2)"
  then show "Login w auth email password appID = Return ('''', Some (Errorf ''auth.Login'' e2))"
    by (simp add: Login_sign_error)
next
  assume "bcrypt_GenerateFromPassword w password bcrypt_DefaultCost = (h3, Some e3)"
  then show "RegisterNewUser w auth st email password =
        ((0, Some (Errorf ''auth.RegisterNewUser'' e3)), st)"
    by (rule RegisterNewUser_hash_error)
next
  assume "bcrypt_GenerateFromPassword w password bcrypt_DefaultCost = (h4, None)
        \<and> userSaver auth st email h4 = ((uid, Some e4), st')
        \<and> \<not> errors_Is e4 storage_ErrUserExists"
  then show "RegisterNewUser w auth st email password =
        ((0, Some (Errorf ''auth.RegisterNewUser'' e4)), st')"
    by (simp add: RegisterNewUser_save_error)
next
  assume "userProvider_IsAdmin auth userID = (b, Some e5) \<and> \<not> errors_Is e5 storage_ErrUserNotFound"
  then show "isAdmin auth userID = (False, Some (Errorf ''auth.IsAdmin'' e5))"
    by (simp add: isAdmin_error)
next
  show "errors_Is (Errorf opn e) v = errors_Is e v"
    by simp
next
  assume "Login w auth email password appID = Return (t, Some r1)"
  then show "\<exists>x. r1 = Errorf ''auth.Login'' x"
    by (rule Login_error_wrapped)
next
  assume "RegisterNewUser w auth st email password = ((i, Some r2), st2)"
  then show "r2 = ErrorsNew ErrUserExists \<or> (\<exists>x. r2 = Errorf ''auth.RegisterNewUser'' x)"
    by (rule RegisterNewUser_error_shape)
next
  assume "isAdmin auth userID = (b', Some r3)"
  then show "\<exists>x. r3 = Errorf ''auth.IsAdmin'' x"
    by (rule isAdmin_error_wrapped)
qed

theorem internal_errors_are_wrapped_witness:
  "Login demo_World
     ((demo_Auth demo_store)\<lparr>userProvider_User :=
        (\<lambda>n. (None, Some (ErrorsNew (Other ''database is locked''))))\<rparr>)
     ''ann@example.org'' ''hunter2'' 1
     = Return ('''', Some (Errorf ''auth.Login'' (ErrorsNew (Other ''database is locked''))))
   \<and> Login demo_World
     ((demo_Auth demo_store)\<lparr>appProvider :=
        (\<lambda>i. (Some \<lparr>app_Id = 1, app_Secret = ''''\<rparr>, None))\<rparr>)
     ''ann@example.org'' ''hunter2'' 1
     = Return ('''', Some (Errorf ''auth.Login'' (ErrorsNew (Other ''key is invalid''))))
   \<and> RegisterNewUser demo_World (demo_Auth demo_store) demo_store ''eve@example.org'' ''''
     = ((0, Some (Errorf ''auth.RegisterNewUser'' (ErrorsNew (Other ''no entropy'')))), demo_store)
   \<and> RegisterNewUser demo_World
     ((demo_Auth demo_store)\<lparr>userSaver :=
        (\<lambda>st n h. ((0, Some (ErrorsNew (Other ''database is locked''))), st))\<rparr>)
     demo_store ''eve@example.org'' ''other''
     = ((0, Some (Errorf ''auth.RegisterNewUser'' (ErrorsNew (Other ''database is locked'')))),
        demo_store)
   \<and> isAdmin ((demo_Auth demo_store)\<lparr>userProvider_IsAdmin :=
        (\<lambda>i. (True, Some (ErrorsNew (Other ''database is locked''))))\<rparr>) 1
     = (False, Some (Errorf ''auth.IsAdmin'' (ErrorsNew (Other ''database is locked''))))
   \<and> errors_Is (Errorf ''auth.Login'' (ErrorsNew (Other ''database is locked'')))
        (Other ''database is locked'')"
proof -
  let ?db = "ErrorsNew (Other ''database is locked'')"
  let ?ann = "\<lparr>user_Id = 1, user_Name = ''ann@example.org'', user_PassHash = ''$hunter2''\<rparr>"
  let ?app = "\<lparr>app_Id = 1, app_Secret = ''''\<rparr>"
  let ?A1 = "(demo_Auth demo_store)\<lparr>userProvider_User := (\<lambda>n. (None, Some ?db))\<rparr>"
  let ?A2 = "(demo_Auth demo_store)\<lparr>appProvider := (\<lambda>i. (Some ?app, None))\<rparr>"
  let ?A4 = "(demo_Auth demo_store)\<lparr>userSaver := (\<lambda>st n h. ((0, Some ?db), st))\<rparr>"
  let ?A5 = "(demo_Auth demo_store)\<lparr>userProvider_IsAdmin := (\<lambda>i. (True, Some ?db))\<rparr>"
  have a1: "userProvider_User ?A1 ''ann@example.org'' = (None, Some ?db)
              \<and> \<not> errors_Is ?db storage_ErrUserNotFound"
    by simp
  have r1: "Login demo_World ?A1 ''ann@example.org'' ''hunter2'' 1
              = Return ('''', Some (Errorf ''auth.Login'' ?db))"
    using internal_errors_are_wrapped [where auth = ?A1 and email = "''ann@example.org''"
        and ?u1.0 = None and ?e1.0 = ?db and w = demo_World and password = "''hunter2''"
        and appID = 1, THEN conjunct1] a1
    by simp
  have a2: "userProvider_User ?A2 ''ann@example.org'' = (Some ?ann, None)
        \<and> bcrypt_CompareHashAndPassword demo_World (user_PassHash ?ann) ''hunter2'' = None
        \<and> appProvider ?A2 1 = (Some ?app, None)
        \<and> jwt_SignedString demo_World
             (NewToken_unsigned (time_Now demo_World) ?ann ?app (tokenTTL ?A2)) (app_Secret ?app)
            = ('''', Some (ErrorsNew (Other ''key is invalid'')))"
    by (simp add: demo_defs)
  have r2: "Login demo_World ?A2 ''ann@example.org'' ''hunter2'' 1
              = Return ('''', Some (Errorf ''auth.Login'' (ErrorsNew (Other ''key is invalid''))))"
    using internal_errors_are_wrapped [where auth = ?A2 and email = "''ann@example.org''"
        and ?u2.0 = ?ann and a = ?app and s = "''''"
        and ?e2.0 = "ErrorsNew (Other ''key is invalid'')" and w = demo_World
        and password = "''hunter2''" and appID = 1, THEN conjunct2, THEN conjunct1] a2
    by simp
  have a3: "bcrypt_GenerateFromPassword demo_World '''' bcrypt_DefaultCost
              = ('''', Some (ErrorsNew (Other ''no entropy'')))"
    by (simp add: demo_defs)
  have r3: "RegisterNewUser demo_World (demo_Auth demo_store) demo_store ''eve@example.org'' ''''
     = ((0, Some (Errorf ''auth.RegisterNewUser'' (ErrorsNew (Other ''no entropy'')))), demo_store)"
    using internal_errors_are_wrapped [where auth = "demo_Auth demo_store" and w = demo_World
        and password = "''''" and ?h3.0 = "''''" and ?e3.0 = "ErrorsNew (Other ''no entropy'')"
        and st = demo_store and email = "''eve@example.org''",
        THEN conjunct2, THEN conjunct2, THEN conjunct1] a3
    by simp
  have a4: "bcrypt_GenerateFromPassword demo_World ''other'' bcrypt_DefaultCost = (''$other'', None)
        \<and> userSaver ?A4 demo_store ''eve@example.org'' ''$other'' = ((0, Some ?db), demo_store)
        \<and> \<not> errors_Is ?db storage_ErrUserExists"
    by (simp add: demo_defs)
  have r4: "RegisterNewUser demo_World ?A4 demo_store ''eve@example.org'' ''other''
     = ((0, Some (Errorf ''auth.RegisterNewUser'' ?db)), demo_store)"
    using internal_errors_are_wrapped [where auth = ?A4 and w = demo_World
        and password = "''other''" and ?h4.0 = "''$other''" and ?e4.0 = ?db and uid = 0
        and st = demo_store and st' = demo_store and email = "''eve@example.org''",
        THEN conjunct2, THEN conjunct2, THEN conjunct2, THEN conjunct1] a4
    by simp
  have a5: "userProvider_IsAdmin ?A5 1 = (True, Some ?db) \<and> \<not> errors_Is ?db storage_ErrUserNotFound"
    by simp
  have r5: "isAdmin ?A5 1 = (False, Some (Errorf ''auth.IsAdmin'' ?db))"
    using internal_errors_are_wrapped [where auth = ?A5 and userID = 1 and b = True
        and ?e5.0 = ?db,
        THEN conjunct2, THEN conjunct2, THEN conjunct2, THEN conjunct2, THEN conjunct1] a5
    by simp
  show ?thesis
    using r1 r2 r3 r4 r5 by simp
qed

text \<open>
  C8. When the user lookup returns an error, or the comparison of the password does, the
  outcome of Login is the same whatever the application id, the application provider, the
  signer, the clock and the configured \<open>tokenTTL\<close> are: none of them is consulted.
\<close>

theorem Login_early_exit:
  assumes "(\<exists>u e. userProvider_User auth email = (u, Some e))
         \<or> (\<exists>u e. userProvider_User auth email = (Some u, None)
                 \<and> bcrypt_CompareHashAndPassword w (user_PassHash u) password = Some e)"
  shows "Login (w\<lparr>time_Now := now', jwt_SignedString := sign'\<rparr>)
           (auth\<lparr>appProvider := apps', tokenTTL := ttl'\<rparr>) email password appID'
         = Login w auth email password appID"
  using assms
proof (elim disjE exE conjE)
  fix u e
  assume "userProvider_User auth email = (u, Some e)"
  then show ?thesis by (simp add: Login_def)
next
  fix u e
  assume "userProvider_User auth email = (Some u, None)"
    and "bcrypt_CompareHashAndPassword w (user_PassHash u) password = Some e"
  then show ?thesis by (simp add: Login_def)
qed

theorem Login_early_exit_witness:
  "userProvider_User (demo_Auth demo_store) ''eve@example.org''
     = (None, Some (Errorf ''storage.User'' (ErrorsNew storage_ErrUserNotFound)))
   \<and> Login (demo_World\<lparr>time_Now := 0, jwt_SignedString := (\<lambda>t k. (''forged'', None))\<rparr>)
       ((demo_Auth demo_store)\<lparr>appProvider :=
           (\<lambda>i. (Some \<lparr>app_Id = i, app_Secret = ''k''\<rparr>, None)), tokenTTL := 1\<rparr>)
       ''eve@example.org'' ''hunter2'' 7
     = Login demo_World (demo_Auth demo_store) ''eve@example.org'' ''hunter2'' 1
   \<and> Login (demo_World\<lparr>time_Now := 0, jwt_SignedString := (\<lambda>t k. (''forged'', None))\<rparr>)
       ((demo_Auth demo_store)\<lparr>appProvider :=
           (\<lambda>i. (Some \<lparr>app_Id = i, app_Secret = ''k''\<rparr>, None)), tokenTTL := 1\<rparr>)
       ''ann@example.org'' ''letmein'' 7
     = Login demo_World (demo_Auth demo_store) ''ann@example.org'' ''letmein'' 1
   \<and> Login demo_World (demo_Auth demo_store) ''ann@example.org'' ''letmein'' 1
     = Return ('''', Some (Errorf ''auth.Login'' (ErrorsNew ErrInvalidCredentials)))"
proof -
  let ?ann = "\<lparr>user_Id = 1, user_Name = ''ann@example.org'', user_PassHash = ''$hunter2''\<rparr>"
  have h1: "userProvider_User (demo_Auth demo_store) ''eve@example.org''
     = (None, Some (Errorf ''storage.User'' (ErrorsNew storage_ErrUserNotFound)))"
    by (simp add: demo_defs)
  have h2: "userProvider_User (demo_Auth demo_store) ''ann@example.org'' = (Some ?ann, None)
      \<and> bcrypt_CompareHashAndPassword demo_World (user_PassHash ?ann) ''letmein''
          = Some (ErrorsNew (Other ''hashedPassword is not the hash of the given password''))"
    by (simp add: demo_defs)
  have p1: "(\<exists>u e. userProvider_User (demo_Auth demo_store) ''eve@example.org'' = (u, Some e))
         \<or> (\<exists>u e. userProvider_User (demo_Auth demo_store) ''eve@example.org'' = (Some u, None)
                 \<and> bcrypt_CompareHashAndPassword demo_World (user_PassHash u) ''hunter2'' = Some e)"
    using h1 by blast
  have p2: "(\<exists>u e. userProvider_User (demo_Auth demo_store) ''ann@example.org'' = (u, Some e))
         \<or> (\<exists>u e. userProvider_User (demo_Auth demo_store) ''ann@example.org'' = (Some u, None)
                 \<and> bcrypt_CompareHashAndPassword demo_World (user_PassHash u) ''letmein'' = Some e)"
    using h2 by blast
  have r: "Login demo_World (demo_Auth demo_store) ''ann@example.org'' ''letmein'' 1
     = Return ('''', Some (Errorf ''auth.Login'' (ErrorsNew ErrInvalidCredentials)))"
    using h2 by (simp add: Login_bad_password)
  show ?thesis
    using Login_early_exit [OF p1, where appID = 1] Login_early_exit [OF p2, where appID = 1] h1 r
    by simp
qed

text \<open>
  C9. Whenever an operation returns an error, the value next to it is the zero value of
  its type: the empty string for Login, 0 for RegisterNewUser, false for the admin check.
\<close>

theorem failures_return_zero_values:
  "(Login w auth email password appID = Return (token, Some e1) \<longrightarrow> token = '''')
   \<and> (RegisterNewUser w auth st email password = ((userId, Some e2), st') \<longrightarrow> userId = 0)
   \<and> (isAdmin auth userID = (b, Some e3) \<longrightarrow> b = False)"
proof (intro conjI impI)
  assume "Login w auth email password appID = Return (token, Some e1)"
  then show "token = ''''" by (rule Login_error_empty_token)
next
  assume "RegisterNewUser w auth st email password = ((userId, Some e2), st')"
  then show "userId = 0" by (rule RegisterNewUser_error_zero)
next
  assume "isAdmin auth userID = (b, Some e3)"
  then show "b = False" by (rule isAdmin_error_false)
qed

theorem failures_return_zero_values_witness:
  "Login demo_World (demo_Auth demo_store) ''ann@example.org'' ''letmein'' 1
     = Return ('''', Some (Errorf ''auth.Login'' (ErrorsNew ErrInvalidCredentials)))
   \<and> RegisterNewUser demo_World (demo_Auth demo_store) demo_store ''ann@example.org'' ''other''
     = ((0, Some (ErrorsNew ErrUserExists)), demo_store)
   \<and> isAdmin (demo_Auth demo_store) 9
     = (False, Some (Errorf ''auth.IsAdmin'' (ErrorsNew ErrInvalidAppID)))
   \<and> fst (fst (RegisterNewUser demo_World (demo_Auth demo_store) demo_store
                  ''ann@example.org'' ''other'')) = 0
   \<and> fst (isAdmin (demo_Auth demo_store) 9) = False"
proof -
  have l: "Login demo_World (demo_Auth demo_store) ''ann@example.org'' ''letmein'' 1
     = Return ('''', Some (Errorf ''auth.Login'' (ErrorsNew ErrInvalidCredentials)))"
    by (simp add: Login_def demo_defs)
  have g: "RegisterNewUser demo_World (demo_Auth demo_store) demo_store ''ann@example.org'' ''other''
     = ((0, Some (ErrorsNew ErrUserExists)), demo_store)"
    by (simp add: RegisterNewUser_def demo_defs bcrypt_DefaultCost_def)
  have a: "isAdmin (demo_Auth demo_store) 9
     = (False, Some (Errorf ''auth.IsAdmin'' (ErrorsNew ErrInvalidAppID)))"
    by (simp add: isAdmin_def demo_defs)
  note t = failures_return_zero_values [where w = demo_World and auth = "demo_Auth demo_store"
      and email = "''ann@example.org''" and password = "''letmein''" and appID = 1
      and token = "''''" and ?e1.0 = "Errorf ''auth.Login'' (ErrorsNew ErrInvalidCredentials)"
      and userID = 9 and b = False
      and ?e3.0 = "Errorf ''auth.IsAdmin'' (ErrorsNew ErrInvalidAppID)"]
  note t' = failures_return_zero_values [where w = demo_World and auth = "demo_Auth demo_store"
      and st = demo_store and email = "''ann@example.org''" and password = "''other''"
      and userId = 0 and ?e2.0 = "ErrorsNew ErrUserExists" and st' = demo_store]
  have z1: "fst (fst (RegisterNewUser demo_World (demo_Auth demo_store) demo_store
                  ''ann@example.org'' ''other'')) = 0"
    using t' [THEN conjunct2, THEN conjunct1] g by simp
  have z2: "fst (isAdmin (demo_Auth demo_store) 9) = False"
    using t [THEN conjunct2, THEN conjunct2] a by simp
  show ?thesis using l g a z1 z2 by simp
qed

text \<open>
  C10. RegisterNewUser returns the already-exists failure as the bare \<open>ErrUserExists\<close>,
  which is no \<open>Errorf\<close> value, while the two classified failures of Login (unknown
  user, wrong password) come with the operation name around their variable.
\<close>

theorem user_exists_is_bare_sentinel:
  "(bcrypt_GenerateFromPassword w password' bcrypt_DefaultCost = (h, None)
      \<and> userSaver auth st email' h = ((uid, Some e), st')
      \<and> errors_Is e storage_ErrUserExists \<longrightarrow>
        RegisterNewUser w auth st email' password' = ((0, Some (ErrorsNew ErrUserExists)), st')
      \<and> (\<forall>opn x. ErrorsNew ErrUserExists \<noteq> Errorf opn x))
   \<and> (userProvider_User auth email = (u1, Some e1) \<and> errors_Is e1 storage_ErrUserNotFound \<longrightarrow>
        Login w auth email password appID =
          Return ('''', Some (Errorf ''auth.Login'' (ErrorsNew ErrInvalidAppID))))
   \<and> (userProvider_User auth email = (Some u2, None)
      \<and> bcrypt_CompareHashAndPassword w (user_PassHash u2) password = Some e2 \<longrightarrow>
        Login w auth email password appID =
          Return ('''', Some (Errorf ''auth.Login'' (ErrorsNew ErrInvalidCredentials))))"
proof (intro conjI impI allI)
  assume "bcrypt_GenerateFromPassword w password' bcrypt_DefaultCost = (h, None)
      \<and> userSaver auth st email' h = ((uid, Some e), st')
      \<and> errors_Is e storage_ErrUserExists"
  then show "RegisterNewUser w auth st email' password' =
               ((0, Some (ErrorsNew ErrUserExists)), st')"
    by (simp add: RegisterNewUser_exists)
next
  fix opn x
  show "ErrorsNew ErrUserExists \<noteq> Errorf opn x" by simp
next
  assume "userProvider_User auth email = (u1, Some e1) \<and> errors_Is e1 storage_ErrUserNotFound"
  then show "Login w auth email password appID =
          Return ('''', Some (Errorf ''auth.Login'' (ErrorsNew ErrInvalidAppID)))"
    by (simp add: Login_user_not_found)
next
  assume "userProvider_User auth email = (Some u2, None)
      \<and> bcrypt_CompareHashAndPassword w (user_PassHash u2) password = Some e2"
  then show "Login w auth email password appID =
          Return ('''', Some (Errorf ''auth.Login'' (ErrorsNew ErrInvalidCredentials)))"
    by (simp add: Login_bad_password)
qed

theorem user_exists_is_bare_sentinel_witness:
  "RegisterNewUser demo_World (demo_Auth demo_store) demo_store ''ann@example.org'' ''other''
     = ((0, Some (ErrorsNew ErrUserExists)), demo_store)
   \<and> Login demo_World (demo_Auth demo_store) ''eve@example.org'' ''hunter2'' 1
     = Return ('''', Some (Errorf ''auth.Login'' (ErrorsNew ErrInvalidAppID)))
   \<and> Login demo_World (demo_Auth demo_store) ''ann@example.org'' ''letmein'' 1
     = Return ('''', Some (Errorf ''auth.Login'' (ErrorsNew ErrInvalidCredentials)))"
proof -
  let ?ex = "Errorf ''storage.SaveUser'' (ErrorsNew storage_ErrUserExists)"
  let ?nf = "Errorf ''storage.User'' (ErrorsNew storage_ErrUserNotFound)"
  let ?mm = "ErrorsNew (Other ''hashedPassword is not the hash of the given password'')"
  let ?ann = "\<lparr>user_Id = 1, user_Name = ''ann@example.org'', user_PassHash = ''$hunter2''\<rparr>"
  have a1: "bcrypt_GenerateFromPassword demo_World ''other'' bcrypt_DefaultCost = (''$other'', None)
      \<and> userSaver (demo_Auth demo_store) demo_store ''ann@example.org'' ''$other''
          = ((0, Some ?ex), demo_store)
      \<and> errors_Is ?ex storage_ErrUserExists"
    by (simp add: demo_defs)
  have a2: "userProvider_User (demo_Auth demo_store) ''eve@example.org'' = (None, Some ?nf)
      \<and> errors_Is ?nf storage_ErrUserNotFound"
    by (simp add: demo_defs)
  have a3: "userProvider_User (demo_Auth demo_store) ''ann@example.org'' = (Some ?ann, None)
      \<and> bcrypt_CompareHashAndPassword demo_World (user_PassHash ?ann) ''letmein'' = Some ?mm"
    by (simp add: demo_defs)
  have r1: "RegisterNewUser demo_World (demo_Auth demo_store) demo_store ''ann@example.org''
              ''other'' = ((0, Some (ErrorsNew ErrUserExists)), demo_store)"
    using user_exists_is_bare_sentinel [where w = demo_World and auth = "demo_Auth demo_store"
        and st = demo_store and email' = "''ann@example.org''" and password' = "''other''"
        and h = "''$other''" and uid = 0 and e = ?ex and st' = demo_store, THEN conjunct1] a1
    by simp
  have r2: "Login demo_World (demo_Auth demo_store) ''eve@example.org'' ''hunter2'' 1
     = Return ('''', Some (Errorf ''auth.Login'' (ErrorsNew ErrInvalidAppID)))"
    using user_exists_is_bare_sentinel [where w = demo_World and auth = "demo_Auth demo_store"
        and email = "''eve@example.org''" and password = "''hunter2''" and appID = 1
        and ?u1.0 = None and ?e1.0 = ?nf, THEN conjunct2, THEN conjunct1] a2
    by simp
  have r3: "Login demo_World (demo_Auth demo_store) ''ann@example.org'' ''letmein'' 1
     = Return ('''', Some (Errorf ''auth.Login'' (ErrorsNew ErrInvalidCredentials)))"
    using user_exists_is_bare_sentinel [where w = demo_World and auth = "demo_Auth demo_store"
        and email = "''ann@example.org''" and password = "''letmein''" and appID = 1
        and ?u2.0 = ?ann and ?e2.0 = ?mm, THEN conjunct2, THEN conjunct2] a3
    by simp
  show ?thesis using r1 r2 r3 by simp
qed

end
